theory Spec2Isabelle
  imports Complex_Main "HOL-Library.Word" "HOL-Library.List_Lexorder" "HOL-Library.Multiset"
begin

section \<open>The JavaScript values the two components compute with\<close>

text \<open>
  \<^verbatim>\<open>src/src/App.tsx\<close> holds two React components, \<^verbatim>\<open>InputField\<close> and \<^verbatim>\<open>DataTable\<close>.
  Their logic is written against a handful of ECMAScript built-ins: the relational operators
  \<^verbatim>\<open><\<close> and \<^verbatim>\<open>></\<close> on values of type \<^verbatim>\<open>any\<close>, property access on a record,
  \<^verbatim>\<open>Array.prototype.map/filter/sort\<close>, the array spread and \<^verbatim>\<open>Set\<close>.
  This section models those built-ins; the following sections translate the components.

  A string is its sequence of UTF-16 code units; \<^verbatim>\<open><\<close> on two strings compares them
  lexicographically by code unit, which is the lexicographic order on lists.
\<close>

type_synonym jsstring = "16 word list"

definition utf16 :: "string \<Rightarrow> jsstring" where
  \<comment> \<open>the code units of an ASCII literal of the source\<close>
  "utf16 s = map (\<lambda>c. of_nat (of_char c)) s"

text \<open>
  A Number is an IEEE double. Comparing two doubles involves no rounding, so a finite double is
  modelled by the rational it denotes (\<open>+0\<close> and \<open>-0\<close> are one value for \<^verbatim>\<open><\<close> and for
  \<^verbatim>\<open>Set\<close> membership alike); the two infinities and NaN are values of their own.
\<close>

datatype jsnum = NaN | NegInfinity | Finite rat | PosInfinity

text \<open>
  The values a field of a row can hold. Rows are \<^verbatim>\<open>Record<string, any>\<close>; the model
  covers the primitive values \<^verbatim>\<open>undefined\<close>, \<^verbatim>\<open>null\<close>, booleans, numbers, strings and symbols.
  Object-valued and BigInt fields are outside the model.
\<close>

datatype jsval = Undefined | Null | Boolean bool | Number jsnum | String jsstring | Symbol

datatype error = TypeError

text \<open>
  A row is the list of its own properties; reading a property that is absent yields
  \<^verbatim>\<open>undefined\<close>, as \<^verbatim>\<open>a[sortConfig.key]\<close> does. Properties that a row would inherit from
  \<^verbatim>\<open>Object.prototype\<close> (a sort key such as \<^verbatim>\<open>toString\<close>) are outside the model.
\<close>

type_synonym row = "(jsstring \<times> jsval) list"

definition get :: "row \<Rightarrow> jsstring \<Rightarrow> jsval" where
  "get r k = (case map_of r k of None \<Rightarrow> Undefined | Some v \<Rightarrow> v)"

subsection \<open>The relational operators\<close>

text \<open>
  \<^verbatim>\<open>Number::lessThan\<close> of ECMA-262: \<open>None\<close> is the result \<^verbatim>\<open>undefined\<close> that a NaN operand gives.
\<close>

fun Number_lessThan :: "jsnum \<Rightarrow> jsnum \<Rightarrow> bool option" where
  "Number_lessThan NaN y = None"
| "Number_lessThan x NaN = None"
| "Number_lessThan PosInfinity y = Some False"
| "Number_lessThan x PosInfinity = Some True"
| "Number_lessThan x NegInfinity = Some False"
| "Number_lessThan NegInfinity y = Some True"
| "Number_lessThan (Finite p) (Finite q) = Some (p < q)"

text \<open>
  \<^verbatim>\<open>ToNumber\<close>. Converting a symbol throws a TypeError. The conversion of a string parses a
  numeric literal and rounds it to a double; that function of the runtime, \<^verbatim>\<open>StringToNumber\<close>,
  is the parameter \<open>s2n\<close> of everything that compares values.
\<close>

fun ToNumber :: "(jsstring \<Rightarrow> jsnum) \<Rightarrow> jsval \<Rightarrow> error + jsnum" where
  "ToNumber s2n Undefined = Inr NaN"
| "ToNumber s2n Null = Inr (Finite 0)"
| "ToNumber s2n (Boolean b) = Inr (Finite (if b then 1 else 0))"
| "ToNumber s2n (Number n) = Inr n"
| "ToNumber s2n (String s) = Inr (s2n s)"
| "ToNumber s2n Symbol = Inl TypeError"

text \<open>
  \<^verbatim>\<open>IsLessThan\<close>: two strings are compared as strings, any other pair after \<^verbatim>\<open>ToNumber\<close>
  of both operands.
\<close>

fun IsLessThan :: "(jsstring \<Rightarrow> jsnum) \<Rightarrow> jsval \<Rightarrow> jsval \<Rightarrow> error + bool option" where
  "IsLessThan s2n (String s) (String t) = Inr (Some (s < t))"
| "IsLessThan s2n x y =
     (case ToNumber s2n x of
        Inl e \<Rightarrow> Inl e
      | Inr nx \<Rightarrow> (case ToNumber s2n y of
                     Inl e \<Rightarrow> Inl e
                   | Inr ny \<Rightarrow> Inr (Number_lessThan nx ny)))"

definition js_lt :: "(jsstring \<Rightarrow> jsnum) \<Rightarrow> jsval \<Rightarrow> jsval \<Rightarrow> error + bool" where
  \<comment> \<open>\<^verbatim>\<open>x < y\<close>: an undefined comparison is \<^verbatim>\<open>false\<close>\<close>
  "js_lt s2n x y =
     (case IsLessThan s2n x y of Inl e \<Rightarrow> Inl e | Inr r \<Rightarrow> Inr (r = Some True))"

definition js_gt :: "(jsstring \<Rightarrow> jsnum) \<Rightarrow> jsval \<Rightarrow> jsval \<Rightarrow> error + bool" where
  \<comment> \<open>\<^verbatim>\<open>x > y\<close> is \<^verbatim>\<open>IsLessThan(y, x)\<close>\<close>
  "js_gt s2n x y =
     (case IsLessThan s2n y x of Inl e \<Rightarrow> Inl e | Inr r \<Rightarrow> Inr (r = Some True))"


subsection \<open>Arrays\<close>

definition Array_map :: "('a \<Rightarrow> nat \<Rightarrow> 'b) \<Rightarrow> 'a list \<Rightarrow> 'b list" where
  \<comment> \<open>\<^verbatim>\<open>xs.map((x, index) => f(x, index))\<close>\<close>
  "Array_map f xs = map (\<lambda>(x, index). f x index) (zip xs [0..<length xs])"

definition Array_filter :: "('a \<Rightarrow> nat \<Rightarrow> bool) \<Rightarrow> 'a list \<Rightarrow> 'a list" where
  \<comment> \<open>\<^verbatim>\<open>xs.filter((x, index) => p(x, index))\<close>\<close>
  "Array_filter p xs = map fst (filter (\<lambda>(x, index). p x index) (zip xs [0..<length xs]))"

text \<open>
  \<^verbatim>\<open>Array.prototype.sort(comparefn)\<close> reads the elements into a list, sorts the list by calls
  of the comparator and writes it back; a comparator that throws ends the sort with what it threw,
  before anything is written back. The sort is stable. Which pairs are compared is left to the
  engine; the model is the insertion sort engines run on short arrays:
  \<^verbatim>\<open>
  for (i = 1; i < n; i++) {
    item = a[i];
    for (j = i - 1; j >= 0; j--) {
      swap = a[j];
      if (comparefn(swap, item) <= 0) break;
      a[j + 1] = swap;
    }
    a[j + 1] = item;
  }
  \<close>
  \<open>insert_item\<close> is the inner loop. Its list argument is the sorted prefix \<^verbatim>\<open>a[0..i-1]\<close>
  read from \<^verbatim>\<open>a[i-1]\<close> down to \<^verbatim>\<open>a[0]\<close>, the order in which the loop visits it.
\<close>

fun insert_item :: "('a \<Rightarrow> 'a \<Rightarrow> error + int) \<Rightarrow> 'a \<Rightarrow> 'a list \<Rightarrow> error + 'a list" where
  "insert_item comparefn item [] = Inr [item]"
| "insert_item comparefn item (swap # below) =
     (case comparefn swap item of
        Inl e \<Rightarrow> Inl e
      | Inr c \<Rightarrow>
          if c \<le> 0 then Inr (item # swap # below)
          else (case insert_item comparefn item below of
                  Inl e \<Rightarrow> Inl e
                | Inr below' \<Rightarrow> Inr (swap # below')))"

fun insertion_sort :: "('a \<Rightarrow> 'a \<Rightarrow> error + int) \<Rightarrow> 'a list \<Rightarrow> 'a list \<Rightarrow> error + 'a list" where
  \<comment> \<open>the outer loop: \<open>below\<close> is the sorted prefix, highest index first\<close>
  "insertion_sort comparefn [] below = Inr (rev below)"
| "insertion_sort comparefn (item # rest) below =
     (case insert_item comparefn item below of
        Inl e \<Rightarrow> Inl e
      | Inr below' \<Rightarrow> insertion_sort comparefn rest below')"

definition sort_list :: "('a \<Rightarrow> 'a \<Rightarrow> error + int) \<Rightarrow> 'a list \<Rightarrow> error + 'a list" where
  "sort_list comparefn xs = insertion_sort comparefn xs []"

text \<open>
  Arrays are objects: \<^verbatim>\<open>sort\<close> works in place and returns the array it was called on, and the
  spread \<^verbatim>\<open>[...data]\<close> allocates a fresh array. A store is the list of the arrays allocated so
  far; an array reference is its index in the store.
\<close>

type_synonym addr = nat
type_synonym 'a store = "'a list list"

definition spread :: "'a store \<Rightarrow> addr \<Rightarrow> 'a store \<times> addr" where
  \<comment> \<open>\<^verbatim>\<open>[...a]\<close>\<close>
  "spread st a = (st @ [st ! a], length st)"

definition Array_sort ::
  "('a \<Rightarrow> 'a \<Rightarrow> error + int) \<Rightarrow> 'a store \<Rightarrow> addr \<Rightarrow> 'a store \<times> (error + addr)" where
  \<comment> \<open>\<^verbatim>\<open>a.sort(comparefn)\<close>\<close>
  "Array_sort comparefn st a =
     (case sort_list comparefn (st ! a) of
        Inl e \<Rightarrow> (st, Inl e)
      | Inr ys \<Rightarrow> (st[a := ys], Inr a))"

subsection \<open>Set\<close>

text \<open>
  A \<^verbatim>\<open>Set\<close> keeps its elements in insertion order; \<^verbatim>\<open>add\<close> of an element that is already
  present changes nothing. Membership is decided by SameValueZero, which on the keys below is
  equality.
\<close>

type_synonym 'a jsset = "'a list"

definition Set_has :: "'a jsset \<Rightarrow> 'a \<Rightarrow> bool" where
  "Set_has S k = (k \<in> set S)"

definition Set_add :: "'a jsset \<Rightarrow> 'a \<Rightarrow> 'a jsset" where
  "Set_add S k = (if Set_has S k then S else S @ [k])"

definition Set_delete :: "'a jsset \<Rightarrow> 'a \<Rightarrow> 'a jsset" where
  "Set_delete S k = filter (\<lambda>x. x \<noteq> k) S"

definition Set_new :: "'a list \<Rightarrow> 'a jsset" where
  \<comment> \<open>\<^verbatim>\<open>new Set(iterable)\<close> adds the elements one by one\<close>
  "Set_new xs = foldl Set_add [] xs"


section \<open>DataTable\<close>

datatype direction = asc | desc

record sortConfig =
  key :: jsstring
  direction :: direction

record Column =
  col_key :: jsstring
  title :: jsstring
  dataIndex :: jsstring
  sortable :: bool
  has_render :: bool

text \<open>A row key is \<^verbatim>\<open>string | number\<close>.\<close>

datatype rowkey = NumKey jsnum | StrKey jsstring

text \<open>
  The props after destructuring, defaults applied. \<^verbatim>\<open>onRowSelect\<close> is a function of the host;
  \<open>'e\<close> stands for what one call of it does, so that the calls a handler makes are the list of
  these effects.
\<close>

record 'e DataTableProps =
  data :: "row list"
  columns :: "Column list"
  loading :: bool
  selectable :: bool
  onRowSelect :: "(row list \<Rightarrow> 'e) option"
  keyExtractor :: "row \<Rightarrow> nat \<Rightarrow> rowkey"

definition default_keyExtractor :: "row \<Rightarrow> nat \<Rightarrow> rowkey" where
  \<comment> \<open>\<^verbatim>\<open>keyExtractor = (record, index) => index\<close>\<close>
  "default_keyExtractor record index = NumKey (Finite (of_nat index))"

text \<open>The two \<^verbatim>\<open>useState\<close> cells and their initial values.\<close>

record DataTableState =
  selectedRows :: "rowkey jsset"
  sortConfig :: "sortConfig option"

definition DataTable_init :: DataTableState where
  "DataTable_init = \<lparr>selectedRows = Set_new [], sortConfig = None\<rparr>"

subsection \<open>The sorted view\<close>

definition comparefn :: "(jsstring \<Rightarrow> jsnum) \<Rightarrow> sortConfig \<Rightarrow> row \<Rightarrow> row \<Rightarrow> error + int" where
  \<comment> \<open>the arrow function handed to \<^verbatim>\<open>sort\<close>\<close>
  "comparefn s2n cfg a b =
     (let aValue = get a (key cfg); bValue = get b (key cfg) in
      case js_lt s2n aValue bValue of
        Inl e \<Rightarrow> Inl e
      | Inr lt \<Rightarrow>
          if lt then Inr (if direction cfg = asc then - 1 else 1)
          else (case js_gt s2n aValue bValue of
                  Inl e \<Rightarrow> Inl e
                | Inr gt \<Rightarrow>
                    if gt then Inr (if direction cfg = asc then 1 else - 1)
                    else Inr 0))"

definition sortedData ::
  "(jsstring \<Rightarrow> jsnum) \<Rightarrow> row store \<Rightarrow> addr \<Rightarrow> sortConfig option \<Rightarrow> row store \<times> (error + addr)" where
  \<comment> \<open>the body of the \<^verbatim>\<open>useMemo\<close>; \<open>dataRef\<close> is the reference to the host's array \<^verbatim>\<open>data\<close>\<close>
  "sortedData s2n st dataRef cfg =
     (case cfg of
        None \<Rightarrow> (st, Inr dataRef)
      | Some c \<Rightarrow>
          (case spread st dataRef of (st1, copy) \<Rightarrow> Array_sort (comparefn s2n c) st1 copy))"

definition sortedRows ::
  "(jsstring \<Rightarrow> jsnum) \<Rightarrow> row list \<Rightarrow> sortConfig option \<Rightarrow> error + row list" where
  \<comment> \<open>the elements of \<^verbatim>\<open>sortedData\<close> when the host's array holds \<open>rows\<close>\<close>
  "sortedRows s2n rows cfg =
     (case sortedData s2n [rows] 0 cfg of
        (st, Inl e) \<Rightarrow> Inl e
      | (st, Inr a) \<Rightarrow> Inr (st ! a))"

subsection \<open>The event handlers\<close>

definition handleSort :: "DataTableState \<Rightarrow> jsstring \<Rightarrow> DataTableState" where
  "handleSort s columnKey =
     (let newDirection =
        (case sortConfig s of
           None \<Rightarrow> asc
         | Some c \<Rightarrow> if key c = columnKey \<and> direction c = asc then desc else asc)
      in s\<lparr>sortConfig := Some \<lparr>key = columnKey, direction = newDirection\<rparr>\<rparr>)"

definition handleRowSelect ::
  "'e DataTableProps \<Rightarrow> DataTableState \<Rightarrow> rowkey \<Rightarrow> bool \<Rightarrow> DataTableState \<times> 'e list" where
  "handleRowSelect props s rowKey checked =
     (let copy = Set_new (selectedRows s);
          newSelectedRows = (if checked then Set_add copy rowKey else Set_delete copy rowKey)
      in (s\<lparr>selectedRows := newSelectedRows\<rparr>,
          case onRowSelect props of
            None \<Rightarrow> []
          | Some call \<Rightarrow>
              [call (Array_filter
                       (\<lambda>_ index. Set_has newSelectedRows
                                     (keyExtractor props (data props ! index) index))
                       (data props))]))"

definition handleSelectAll ::
  "'e DataTableProps \<Rightarrow> DataTableState \<Rightarrow> bool \<Rightarrow> DataTableState \<times> 'e list" where
  "handleSelectAll props s checked =
     (if checked then
        (s\<lparr>selectedRows := Set_new (Array_map (keyExtractor props) (data props))\<rparr>,
         case onRowSelect props of None \<Rightarrow> [] | Some call \<Rightarrow> [call (data props)])
      else
        (s\<lparr>selectedRows := Set_new []\<rparr>,
         case onRowSelect props of None \<Rightarrow> [] | Some call \<Rightarrow> [call []]))"

subsection \<open>What the component renders\<close>
















subsection \<open>Interaction\<close>

datatype DataTableEvent =
    ClickSort jsstring
  | ToggleRow rowkey bool
  | ToggleAll bool

definition DataTable_handle ::
  "'e DataTableProps \<Rightarrow> DataTableState \<Rightarrow> DataTableEvent \<Rightarrow> DataTableState \<times> 'e list" where
  \<comment> \<open>the \<^verbatim>\<open>onClick\<close> and \<^verbatim>\<open>onChange\<close> wiring of the table\<close>
  "DataTable_handle props s ev =
     (case ev of
        ClickSort columnKey \<Rightarrow> (handleSort s columnKey, [])
      | ToggleRow rowKey checked \<Rightarrow> handleRowSelect props s rowKey checked
      | ToggleAll checked \<Rightarrow> handleSelectAll props s checked)"

fun DataTable_run ::
  "'e DataTableProps \<Rightarrow> DataTableState \<Rightarrow> DataTableEvent list \<Rightarrow> DataTableState" where
  \<comment> \<open>the state after a history of events\<close>
  "DataTable_run props s [] = s"
| "DataTable_run props s (ev # evs) = DataTable_run props (fst (DataTable_handle props s ev)) evs"

section \<open>InputField\<close>

datatype InputType = Text | Password | Email
datatype Variant = filled | outlined | ghost
datatype Size = sm | md | lg

record ChangeEvent =
  target_value :: jsstring

text \<open>
  The props after destructuring. An optional string prop is \<open>None\<close> when the host leaves it
  out; \<open>'e\<close> stands for what one call of \<^verbatim>\<open>onChange\<close> does.
\<close>

record 'e InputFieldProps =
  input_value :: jsstring
  onChange :: "(ChangeEvent \<Rightarrow> 'e) option"
  label :: "jsstring option"
  placeholder :: "jsstring option"
  helperText :: "jsstring option"
  errorMessage :: "jsstring option"
  disabled :: bool
  invalid :: bool
  variant :: Variant
  input_size :: Size
  input_type :: InputType
  showClearButton :: bool
  input_loading :: bool

record InputFieldState =
  showPassword :: bool
  isFocused :: bool

definition InputField_init :: InputFieldState where
  "InputField_init = \<lparr>showPassword = False, isFocused = False\<rparr>"

definition given :: "jsstring option \<Rightarrow> bool" where
  \<comment> \<open>truthiness of an optional string: present and not empty\<close>
  "given p = (case p of None \<Rightarrow> False | Some str \<Rightarrow> str \<noteq> [])"

definition inputType :: "'e InputFieldProps \<Rightarrow> InputFieldState \<Rightarrow> InputType" where
  "inputType props s =
     (if input_type props = Password \<and> showPassword s then Text else input_type props)"

definition sizeClasses :: "Size \<Rightarrow> string" where
  "sizeClasses z =
     (case z of sm \<Rightarrow> ''px-3 py-2 text-sm''
              | md \<Rightarrow> ''px-4 py-3 text-base''
              | lg \<Rightarrow> ''px-5 py-4 text-lg'')"

definition variantClasses :: "Variant \<Rightarrow> string" where
  "variantClasses v =
     (case v of
        filled \<Rightarrow> ''bg-gray-100 border-transparent focus:bg-white focus:border-blue-500''
      | outlined \<Rightarrow> ''bg-white border-gray-300 focus:border-blue-500''
      | ghost \<Rightarrow> ''bg-transparent border-transparent focus:bg-gray-50 focus:border-gray-300'')"

definition inputClasses :: "'e InputFieldProps \<Rightarrow> InputFieldState \<Rightarrow> string list" where
  \<comment> \<open>the lines of the template literal\<close>
  "inputClasses props s =
     [''w-full rounded-lg border-2 transition-all duration-200 outline-none'',
      sizeClasses (input_size props),
      variantClasses (variant props),
      if disabled props then ''opacity-50 cursor-not-allowed'' else ''cursor-text'',
      if invalid props \<or> given (errorMessage props)
        then ''border-red-500 focus:border-red-500'' else [],
      if isFocused s then ''ring-2 ring-blue-100'' else [],
      ''pr-'' @ (if input_type props = Password \<or> showClearButton props then ''12'' else ''4'')]"

definition handleClear :: "'e InputFieldProps \<Rightarrow> 'e list" where
  "handleClear props =
     (case onChange props of
        None \<Rightarrow> []
      | Some call \<Rightarrow> [call \<lparr>target_value = []\<rparr>])"

datatype EyeIcon = Eye | EyeOff

record ToggleButton =
  aria_label :: string
  icon :: EyeIcon

record InputFieldView =
  view_label :: "jsstring option"
  view_type :: InputType
  view_value :: jsstring
  view_placeholder :: "jsstring option"
  view_disabled :: bool
  aria_invalid :: bool
  aria_describedby :: "string option"
  className :: "string list"
  spinner :: bool
  visibility_toggle :: "ToggleButton option"
  clear_button :: bool
  error_text :: "jsstring option"
  helper_text :: "jsstring option"

definition InputField :: "'e InputFieldProps \<Rightarrow> InputFieldState \<Rightarrow> InputFieldView" where
  "InputField props s =
     \<lparr>view_label = (if given (label props) then label props else None),
      view_type = inputType props s,
      view_value = input_value props,
      view_placeholder = placeholder props,
      view_disabled = disabled props,
      aria_invalid = (invalid props \<or> given (errorMessage props)),
      aria_describedby =
        (if given (helperText props) then Some ''helper-text''
         else if given (errorMessage props) then Some ''error-text'' else None),
      className = inputClasses props s,
      spinner = input_loading props,
      visibility_toggle =
        (if \<not> input_loading props \<and> input_type props = Password
         then Some \<lparr>aria_label = (if showPassword s then ''Hide password'' else ''Show password''),
                    icon = (if showPassword s then EyeOff else Eye)\<rparr>
         else None),
      clear_button =
        (\<not> input_loading props \<and> showClearButton props \<and> input_value props \<noteq> []
         \<and> input_type props \<noteq> Password),
      error_text = (if given (errorMessage props) then errorMessage props else None),
      helper_text =
        (if given (helperText props) \<and> \<not> given (errorMessage props)
         then helperText props else None)\<rparr>"

datatype InputFieldEvent = Focus | Blur | Change jsstring | ToggleVisibility | Clear

definition togglePassword :: "InputFieldState \<Rightarrow> InputFieldState" where
  \<comment> \<open>\<^verbatim>\<open>setShowPassword(!showPassword)\<close>\<close>
  "togglePassword s = s\<lparr>showPassword := \<not> showPassword s\<rparr>"

definition InputField_handle ::
  "'e InputFieldProps \<Rightarrow> InputFieldState \<Rightarrow> InputFieldEvent \<Rightarrow> InputFieldState \<times> 'e list" where
  \<comment> \<open>the \<^verbatim>\<open>onFocus\<close>, \<^verbatim>\<open>onBlur\<close>, \<^verbatim>\<open>onChange\<close> and \<^verbatim>\<open>onClick\<close> wiring of the input\<close>
  "InputField_handle props s ev =
     (case ev of
        Focus \<Rightarrow> (s\<lparr>isFocused := True\<rparr>, [])
      | Blur \<Rightarrow> (s\<lparr>isFocused := False\<rparr>, [])
      | Change v \<Rightarrow>
          (s, case onChange props of None \<Rightarrow> [] | Some call \<Rightarrow> [call \<lparr>target_value = v\<rparr>])
      | ToggleVisibility \<Rightarrow> (togglePassword s, [])
      | Clear \<Rightarrow> (s, handleClear props))"

fun InputField_run ::
  "'e InputFieldProps \<Rightarrow> InputFieldState \<Rightarrow> InputFieldEvent list \<Rightarrow> InputFieldState" where
  "InputField_run props s [] = s"
| "InputField_run props s (ev # evs) =
     InputField_run props (fst (InputField_handle props s ev)) evs"

section \<open>The demo page\<close>

text \<open>The table data, the column descriptors and the props that \<^verbatim>\<open>ComponentDemo\<close> passes.\<close>

definition user :: "rat \<Rightarrow> string \<Rightarrow> string \<Rightarrow> string \<Rightarrow> string \<Rightarrow> row" where
  \<comment> \<open>an object literal \<^verbatim>\<open>{ id, name, email, role, status }\<close>\<close>
  "user i n e r a =
     [(utf16 ''id'', Number (Finite i)), (utf16 ''name'', String (utf16 n)),
      (utf16 ''email'', String (utf16 e)), (utf16 ''role'', String (utf16 r)),
      (utf16 ''status'', String (utf16 a))]"

definition userData :: "row list" where
  "userData =
     [user 1 ''John Doe'' ''john@example.com'' ''Admin'' ''Active'',
      user 2 ''Jane Smith'' ''jane@example.com'' ''User'' ''Active'',
      user 3 ''Bob Johnson'' ''bob@example.com'' ''Editor'' ''Inactive'',
      user 4 ''Alice Brown'' ''alice@example.com'' ''User'' ''Active'',
      user 5 ''Charlie Wilson'' ''charlie@example.com'' ''Admin'' ''Active'']"

definition demo_columns :: "Column list" where
  "demo_columns =
     [\<lparr>col_key = utf16 ''name'', title = utf16 ''Name'', dataIndex = utf16 ''name'',
       sortable = True, has_render = False\<rparr>,
      \<lparr>col_key = utf16 ''email'', title = utf16 ''Email'', dataIndex = utf16 ''email'',
       sortable = True, has_render = False\<rparr>,
      \<lparr>col_key = utf16 ''role'', title = utf16 ''Role'', dataIndex = utf16 ''role'',
       sortable = True, has_render = False\<rparr>,
      \<lparr>col_key = utf16 ''status'', title = utf16 ''Status'', dataIndex = utf16 ''status'',
       sortable = False, has_render = True\<rparr>]"

definition record_id :: "row \<Rightarrow> nat \<Rightarrow> rowkey" where
  \<comment> \<open>\<^verbatim>\<open>(record) => record.id\<close>; every row of \<open>userData\<close> holds a number there\<close>
  "record_id record index =
     (case get record (utf16 ''id'') of
        String str \<Rightarrow> StrKey str
      | Number n \<Rightarrow> NumKey n
      | _ \<Rightarrow> NumKey NaN)"

definition demo_table :: "bool \<Rightarrow> (row list) DataTableProps" where
  \<comment> \<open>\<^verbatim>\<open>setSelectedUsers\<close> stores the rows it is called with\<close>
  "demo_table tableLoading =
     \<lparr>data = userData, columns = demo_columns, loading = tableLoading, selectable = True,
      onRowSelect = Some (\<lambda>rows. rows), keyExtractor = record_id\<rparr>"

definition demo_password :: "jsstring \<Rightarrow> jsstring InputFieldProps" where
  \<comment> \<open>the password input of the demo; \<^verbatim>\<open>setPasswordValue\<close> stores the event's value\<close>
  "demo_password passwordValue =
     \<lparr>input_value = passwordValue, onChange = Some target_value,
      label = Some (utf16 ''Password''), placeholder = Some (utf16 ''Enter your password''),
      helperText = Some (utf16 ''Must be at least 8 characters''), errorMessage = None,
      disabled = False, invalid = False, variant = outlined, input_size = md,
      input_type = Password, showClearButton = False, input_loading = False\<rparr>"

definition demo_username :: "jsstring \<Rightarrow> jsstring InputFieldProps" where
  \<comment> \<open>the first input of the demo, with the clear button\<close>
  "demo_username inputValue =
     \<lparr>input_value = inputValue, onChange = Some target_value,
      label = Some (utf16 ''Username''), placeholder = Some (utf16 ''Enter your username''),
      helperText = Some (utf16 ''Choose a unique username''), errorMessage = None,
      disabled = False, invalid = False, variant = outlined, input_size = md,
      input_type = Text, showClearButton = True, input_loading = False\<rparr>"





section \<open>Properties of the displayed rows\<close>








section \<open>Selection bookkeeping\<close>

lemma set_foldl_Set_add: "set (foldl Set_add acc xs) = set acc \<union> set xs"
  by (induction xs arbitrary: acc) (auto simp: Set_add_def Set_has_def)

lemma distinct_foldl_Set_add: "distinct acc \<Longrightarrow> distinct (foldl Set_add acc xs)"
  by (induction xs arbitrary: acc) (auto simp: Set_add_def Set_has_def)

lemma set_Set_new: "set (Set_new xs) = set xs"
  by (simp add: Set_new_def set_foldl_Set_add)

lemma distinct_Set_new: "distinct (Set_new xs)"
  by (simp add: Set_new_def distinct_foldl_Set_add)

lemma Set_new_Nil: "Set_new [] = []"
  by (simp add: Set_new_def)

lemma set_Set_add: "set (Set_add S k) = insert k (set S)"
  by (auto simp: Set_add_def Set_has_def)

lemma set_Set_delete: "set (Set_delete S k) = set S - {k}"
  by (auto simp: Set_delete_def)

lemma distinct_Set_add: "distinct S \<Longrightarrow> distinct (Set_add S k)"
  by (auto simp: Set_add_def Set_has_def)

lemma distinct_Set_delete: "distinct S \<Longrightarrow> distinct (Set_delete S k)"
  by (auto simp: Set_delete_def)

lemma selectedRows_handleRowSelect:
  "selectedRows (fst (handleRowSelect props s r checked)) =
     (if checked then Set_add (Set_new (selectedRows s)) r
      else Set_delete (Set_new (selectedRows s)) r)"
  by (simp add: handleRowSelect_def Let_def)

text \<open>
  \<^verbatim>\<open>data.filter((_, index) => Q(index))\<close> keeps the elements at the positions that satisfy
  \<open>Q\<close>, in the order of \<open>data\<close>.
\<close>

lemma Array_filter_nths: "Array_filter (\<lambda>_ index. Q index) xs = nths xs {i. Q i}"
  by (simp add: Array_filter_def nths_def case_prod_unfold)

lemma Array_map_nth: "Array_map f xs = map (\<lambda>i. f (xs ! i) i) [0..<length xs]"
  by (rule nth_equalityI) (simp_all add: Array_map_def)

lemma set_Array_map: "set (Array_map f xs) = {f (xs ! i) i | i. i < length xs}"
  by (auto simp: Array_map_nth)

lemma get_user:
  "get (user i n e r a) (utf16 ''id'') = Number (Finite i)"
  "get (user i n e r a) (utf16 ''name'') = String (utf16 n)"
  by (simp_all add: get_def user_def utf16_def)

text \<open>
  C3. Checking row \<open>r\<close> turns the selection set \<open>S\<close> into \<open>S \<union> {r}\<close>, unchecking it into
  \<open>S - {r}\<close>; either way every key other than \<open>r\<close> is a member afterwards exactly when it was
  before, and the new set holds no key twice.
\<close>

theorem handleRowSelect_toggle:
  "set (selectedRows (fst (handleRowSelect props s r True))) = set (selectedRows s) \<union> {r}
   \<and> set (selectedRows (fst (handleRowSelect props s r False))) = set (selectedRows s) - {r}
   \<and> (\<forall>k. k \<noteq> r \<longrightarrow>
          Set_has (selectedRows (fst (handleRowSelect props s r checked))) k
            = Set_has (selectedRows s) k)
   \<and> distinct (selectedRows (fst (handleRowSelect props s r checked)))"
  by (auto simp: selectedRows_handleRowSelect set_Set_add set_Set_delete set_Set_new Set_has_def
      distinct_Set_add distinct_Set_delete distinct_Set_new)

theorem handleRowSelect_toggle_witness:
  "set (selectedRows (fst (handleRowSelect (demo_table False)
          \<lparr>selectedRows = [NumKey (Finite 1)], sortConfig = None\<rparr> (NumKey (Finite 3)) True)))
     = {NumKey (Finite 1), NumKey (Finite 3)}
   \<and> set (selectedRows (fst (handleRowSelect (demo_table False)
          \<lparr>selectedRows = [NumKey (Finite 1)], sortConfig = None\<rparr> (NumKey (Finite 1)) False)))
     = {}
   \<and> Set_has (selectedRows (fst (handleRowSelect (demo_table False)
          \<lparr>selectedRows = [NumKey (Finite 1)], sortConfig = None\<rparr> (NumKey (Finite 3)) True)))
        (NumKey (Finite 1))
   \<and> distinct (selectedRows (fst (handleRowSelect (demo_table False)
          \<lparr>selectedRows = [NumKey (Finite 1)], sortConfig = None\<rparr> (NumKey (Finite 1)) True)))"
  using
    handleRowSelect_toggle [of "demo_table False"
      "\<lparr>selectedRows = [NumKey (Finite 1)], sortConfig = None\<rparr>" "NumKey (Finite 3)" True]
    handleRowSelect_toggle [of "demo_table False"
      "\<lparr>selectedRows = [NumKey (Finite 1)], sortConfig = None\<rparr>" "NumKey (Finite 1)" True]
  by (auto simp: Set_has_def)

text \<open>
  C2. One toggle of a row checkbox calls \<^verbatim>\<open>onRowSelect\<close>, when the host provided it, exactly
  once, with the records of \<open>data\<close> whose extracted key is in the updated selection set, in the
  order of \<open>data\<close>; without the callback nothing is called. The key of the record at position
  \<open>i\<close> is \<^verbatim>\<open>keyExtractor(data[i], i)\<close>.
\<close>

theorem handleRowSelect_callback:
  assumes "handleRowSelect props s r checked = (s', calls)"
  shows "(\<forall>call. onRowSelect props = Some call \<longrightarrow>
            calls = [call (nths (data props)
                       {i. keyExtractor props (data props ! i) i \<in> set (selectedRows s')})])
         \<and> (onRowSelect props = None \<longrightarrow> calls = [])"
  using assms
  by (auto simp: handleRowSelect_def Let_def Array_filter_nths Set_has_def)

theorem handleRowSelect_callback_witness:
  "handleRowSelect (demo_table False) \<lparr>selectedRows = [NumKey (Finite 4)], sortConfig = None\<rparr>
       (NumKey (Finite 2)) True
     = (\<lparr>selectedRows = [NumKey (Finite 4), NumKey (Finite 2)], sortConfig = None\<rparr>,
        [[user 2 ''Jane Smith'' ''jane@example.com'' ''User'' ''Active'',
          user 4 ''Alice Brown'' ''alice@example.com'' ''User'' ''Active'']])
   \<and> nths userData {i. record_id (userData ! i) i \<in> {NumKey (Finite 4), NumKey (Finite 2)}}
     = [user 2 ''Jane Smith'' ''jane@example.com'' ''User'' ''Active'',
        user 4 ''Alice Brown'' ''alice@example.com'' ''User'' ''Active'']"
proof -
  have run: "handleRowSelect (demo_table False)
       \<lparr>selectedRows = [NumKey (Finite 4)], sortConfig = None\<rparr> (NumKey (Finite 2)) True
     = (\<lparr>selectedRows = [NumKey (Finite 4), NumKey (Finite 2)], sortConfig = None\<rparr>,
        [[user 2 ''Jane Smith'' ''jane@example.com'' ''User'' ''Active'',
          user 4 ''Alice Brown'' ''alice@example.com'' ''User'' ''Active'']])"
    by (simp add: handleRowSelect_def demo_table_def Set_new_def Set_add_def Set_has_def
        Array_filter_def userData_def record_id_def get_user
        upt_rec [of 0] upt_rec [of 1] upt_rec [of 2] upt_rec [of 3] upt_rec [of 4] upt_rec [of 5])
  have "onRowSelect (demo_table False) = Some (\<lambda>rows. rows)"
    by (simp add: demo_table_def)
  with handleRowSelect_callback [OF run]
  have "[[user 2 ''Jane Smith'' ''jane@example.com'' ''User'' ''Active'',
          user 4 ''Alice Brown'' ''alice@example.com'' ''User'' ''Active'']]
        = [nths (data (demo_table False))
             {i. keyExtractor (demo_table False) (data (demo_table False) ! i) i
                   \<in> set [NumKey (Finite 4), NumKey (Finite 2)]}]"
    by simp
  then have
    "nths userData {i. record_id (userData ! i) i \<in> {NumKey (Finite 4), NumKey (Finite 2)}}
     = [user 2 ''Jane Smith'' ''jane@example.com'' ''User'' ''Active'',
        user 4 ''Alice Brown'' ''alice@example.com'' ''User'' ''Active'']"
    by (simp add: demo_table_def)
  with run show ?thesis by (rule conjI)
qed

text \<open>
  C4. Checking the header checkbox makes the selection set the set of the extracted keys of all
  rows of \<open>data\<close> and calls \<^verbatim>\<open>onRowSelect\<close> with \<open>data\<close>; unchecking it empties the selection
  set and calls \<^verbatim>\<open>onRowSelect\<close> with the empty list. The call is \<^verbatim>\<open>onRowSelect?.(...)\<close>: it is
  made when the host provided the callback.
\<close>

theorem handleSelectAll_bookkeeping:
  "set (selectedRows (fst (handleSelectAll props s True)))
      = {keyExtractor props (data props ! i) i | i. i < length (data props)}
   \<and> (\<forall>call. onRowSelect props = Some call \<longrightarrow>
          snd (handleSelectAll props s True) = [call (data props)])
   \<and> selectedRows (fst (handleSelectAll props s False)) = []
   \<and> (\<forall>call. onRowSelect props = Some call \<longrightarrow>
          snd (handleSelectAll props s False) = [call []])
   \<and> (onRowSelect props = None \<longrightarrow> snd (handleSelectAll props s checked) = [])"
  by (auto simp: handleSelectAll_def set_Set_new set_Array_map Set_new_Nil)

theorem handleSelectAll_bookkeeping_witness:
  "selectedRows (fst (handleSelectAll (demo_table False) DataTable_init True))
      = [NumKey (Finite 1), NumKey (Finite 2), NumKey (Finite 3), NumKey (Finite 4),
         NumKey (Finite 5)]
   \<and> snd (handleSelectAll (demo_table False) DataTable_init True) = [userData]
   \<and> selectedRows (fst (handleSelectAll (demo_table False)
        \<lparr>selectedRows = [NumKey (Finite 3)], sortConfig = None\<rparr> False)) = []
   \<and> snd (handleSelectAll (demo_table False)
        \<lparr>selectedRows = [NumKey (Finite 3)], sortConfig = None\<rparr> False) = [[]]
   \<and> snd (handleSelectAll ((demo_table False)\<lparr>onRowSelect := None\<rparr>) DataTable_init True) = []"
  using
    handleSelectAll_bookkeeping [of "demo_table False" DataTable_init]
    handleSelectAll_bookkeeping [of "demo_table False"
      "\<lparr>selectedRows = [NumKey (Finite 3)], sortConfig = None\<rparr>"]
    handleSelectAll_bookkeeping [of "(demo_table False)\<lparr>onRowSelect := None\<rparr>" DataTable_init True]
  by (simp add: handleSelectAll_def demo_table_def Set_new_def Set_add_def Set_has_def
      Array_map_def userData_def record_id_def get_user DataTable_init_def
      upt_rec [of 0] upt_rec [of 1] upt_rec [of 2] upt_rec [of 3] upt_rec [of 4] upt_rec [of 5])

section \<open>The sort state\<close>

text \<open>
  C5. A sort request for the column whose key is the current sort key, while the direction is
  \<open>asc\<close>, sets the sort state to that key with \<open>desc\<close>; in every other case (another column,
  direction \<open>desc\<close>, no sort yet) it sets the state to the requested key with \<open>asc\<close>. The
  selection is untouched, and once a sort state is set no history of events clears it.
\<close>

theorem handleSort_toggle:
  "((\<exists>c. sortConfig s = Some c \<and> key c = columnKey \<and> direction c = asc) \<longrightarrow>
      sortConfig (handleSort s columnKey) = Some \<lparr>key = columnKey, direction = desc\<rparr>)
   \<and> (\<not> (\<exists>c. sortConfig s = Some c \<and> key c = columnKey \<and> direction c = asc) \<longrightarrow>
      sortConfig (handleSort s columnKey) = Some \<lparr>key = columnKey, direction = asc\<rparr>)
   \<and> selectedRows (handleSort s columnKey) = selectedRows s
   \<and> (sortConfig s \<noteq> None \<longrightarrow> sortConfig (DataTable_run props s evs) \<noteq> None)"
proof -
  have step: "sortConfig (fst (DataTable_handle props t ev)) \<noteq> None"
    if "sortConfig t \<noteq> None" for t ev
    using that
    by (cases ev)
      (auto simp: DataTable_handle_def handleSort_def handleRowSelect_def handleSelectAll_def
        Let_def)
  have run: "sortConfig t \<noteq> None \<Longrightarrow> sortConfig (DataTable_run props t evs) \<noteq> None" for t
  proof (induction evs arbitrary: t)
    case Nil
    then show ?case by simp
  next
    case (Cons ev evs)
    from Cons.prems have "sortConfig (fst (DataTable_handle props t ev)) \<noteq> None"
      by (rule step)
    then show ?case by (simp add: Cons.IH)
  qed
  show ?thesis
    using run [of s] by (auto simp: handleSort_def split: option.splits)
qed

theorem handleSort_toggle_witness:
  "sortConfig (handleSort
       \<lparr>selectedRows = [], sortConfig = Some \<lparr>key = utf16 ''name'', direction = asc\<rparr>\<rparr>
       (utf16 ''name''))
      = Some \<lparr>key = utf16 ''name'', direction = desc\<rparr>
   \<and> sortConfig (handleSort
       \<lparr>selectedRows = [], sortConfig = Some \<lparr>key = utf16 ''name'', direction = desc\<rparr>\<rparr>
       (utf16 ''name''))
      = Some \<lparr>key = utf16 ''name'', direction = asc\<rparr>
   \<and> sortConfig (handleSort
       \<lparr>selectedRows = [], sortConfig = Some \<lparr>key = utf16 ''name'', direction = asc\<rparr>\<rparr>
       (utf16 ''role''))
      = Some \<lparr>key = utf16 ''role'', direction = asc\<rparr>
   \<and> sortConfig (handleSort DataTable_init (utf16 ''name''))
      = Some \<lparr>key = utf16 ''name'', direction = asc\<rparr>
   \<and> sortConfig (DataTable_run (demo_table False) (handleSort DataTable_init (utf16 ''name''))
         [ToggleAll True, ClickSort (utf16 ''role''), ToggleRow (NumKey (Finite 2)) False])
      \<noteq> None"
proof -
  let ?s = "\<lambda>d. \<lparr>selectedRows = [], sortConfig = Some \<lparr>key = utf16 ''name'', direction = d\<rparr>\<rparr>"
  note rule = handleSort_toggle [where props = "demo_table False"
      and evs = "[ToggleAll True, ClickSort (utf16 ''role''), ToggleRow (NumKey (Finite 2)) False]"]
  from rule [of "?s asc" "utf16 ''name''"] rule [of "?s desc" "utf16 ''name''"]
    rule [of "?s asc" "utf16 ''role''"] rule [of DataTable_init "utf16 ''name''"]
    rule [of "handleSort DataTable_init (utf16 ''name'')" "utf16 ''name''"]
  show ?thesis
    by (simp add: DataTable_init_def handleSort_def utf16_def)
qed

section \<open>The input field\<close>

lemma togglePassword_twice: "togglePassword (togglePassword s) = s"
  by (simp add: togglePassword_def)

lemma run_toggles:
  "InputField_run props s (replicate n ToggleVisibility) = (togglePassword ^^ n) s"
  by (induction n arbitrary: s) (simp_all add: InputField_handle_def funpow_swap1)

lemma even_toggles: "(togglePassword ^^ (2 * n)) s = s"
  by (induction n) (simp_all add: togglePassword_twice)

text \<open>
  C9. For an input of type \<open>password\<close> whose effective type is \<open>password\<close>, one activation of
  the visibility toggle makes the effective type \<open>text\<close>, any even number of activations leaves
  it \<open>password\<close>, and toggling twice gives back the state.
\<close>

theorem password_toggle_roundtrip:
  assumes "input_type props = Password" and "inputType props s = Password"
  shows "inputType props (InputField_run props s [ToggleVisibility]) = Text
         \<and> inputType props (InputField_run props s (replicate (2 * n) ToggleVisibility))
             = Password
         \<and> togglePassword (togglePassword s) = s"
  using assms
  by (auto simp: run_toggles even_toggles togglePassword_twice inputType_def
      InputField_handle_def togglePassword_def split: if_splits)

theorem password_toggle_roundtrip_witness:
  "input_type (demo_password (utf16 ''hunter2'')) = Password
   \<and> inputType (demo_password (utf16 ''hunter2'')) InputField_init = Password
   \<and> inputType (demo_password (utf16 ''hunter2''))
       (InputField_run (demo_password (utf16 ''hunter2'')) InputField_init [ToggleVisibility])
       = Text
   \<and> inputType (demo_password (utf16 ''hunter2''))
       (InputField_run (demo_password (utf16 ''hunter2'')) InputField_init
          (replicate (2 * 3) ToggleVisibility))
       = Password"
proof -
  have t: "input_type (demo_password (utf16 ''hunter2'')) = Password"
    by (simp add: demo_password_def)
  have e: "inputType (demo_password (utf16 ''hunter2'')) InputField_init = Password"
    by (simp add: inputType_def demo_password_def InputField_init_def)
  from password_toggle_roundtrip [OF t e, of 3] t e show ?thesis
    by simp
qed

text \<open>
  C10. Activating the clear button calls \<^verbatim>\<open>onChange\<close>, when the host provided it, exactly once
  with an event whose value is the empty string, and changes no state of the component; without
  \<^verbatim>\<open>onChange\<close> it does nothing. The button is rendered exactly when \<^verbatim>\<open>showClearButton\<close> is
  set, the value is not empty, the input is not loading and its type is not \<open>password\<close>.
\<close>

theorem clear_affordance:
  "(\<forall>call. onChange props = Some call \<longrightarrow>
       InputField_handle props s Clear = (s, [call \<lparr>target_value = []\<rparr>]))
   \<and> (onChange props = None \<longrightarrow> InputField_handle props s Clear = (s, []))
   \<and> (clear_button (InputField props s) \<longleftrightarrow>
        showClearButton props \<and> input_value props \<noteq> [] \<and> \<not> input_loading props
        \<and> input_type props \<noteq> Password)"
  by (auto simp: InputField_handle_def handleClear_def InputField_def)

theorem clear_affordance_witness:
  "InputField_handle (demo_username (utf16 ''pravin'')) InputField_init Clear
     = (InputField_init, [[]])
   \<and> InputField_handle ((demo_username (utf16 ''pravin''))\<lparr>onChange := None\<rparr>) InputField_init
       Clear = (InputField_init, [])
   \<and> clear_button (InputField (demo_username (utf16 ''pravin'')) InputField_init)
   \<and> \<not> clear_button (InputField (demo_username []) InputField_init)
   \<and> \<not> clear_button (InputField (demo_password (utf16 ''hunter2'')) InputField_init)"
  using
    clear_affordance [of "demo_username (utf16 ''pravin'')" InputField_init]
    clear_affordance [of "(demo_username (utf16 ''pravin''))\<lparr>onChange := None\<rparr>" InputField_init]
    clear_affordance [of "demo_username []" InputField_init]
    clear_affordance [of "demo_password (utf16 ''hunter2'')" InputField_init]
  by (simp add: demo_username_def demo_password_def utf16_def)

section \<open>Sorting\<close>










subsection \<open>The comparator of the table\<close>












lemma ToNumber_no_symbol: "v \<noteq> Symbol \<Longrightarrow> \<exists>n. ToNumber s2n v = Inr n"
  by (cases v) auto




lemma sortedRows_None: "sortedRows s2n rows None = Inr rows"
  by (simp add: sortedRows_def sortedData_def)

lemma sortedRows_Some: "sortedRows s2n rows (Some c) = sort_list (comparefn s2n c) rows"
  by (simp add: sortedRows_def sortedData_def spread_def Array_sort_def split: sum.splits)










lemma sort_names:
  "sort_list (comparefn s2n \<lparr>key = utf16 ''name'', direction = asc\<rparr>) userData
   = Inr [user 4 ''Alice Brown'' ''alice@example.com'' ''User'' ''Active'',
          user 3 ''Bob Johnson'' ''bob@example.com'' ''Editor'' ''Inactive'',
          user 5 ''Charlie Wilson'' ''charlie@example.com'' ''Admin'' ''Active'',
          user 2 ''Jane Smith'' ''jane@example.com'' ''User'' ''Active'',
          user 1 ''John Doe'' ''john@example.com'' ''Admin'' ''Active'']"
  by code_simp



lemma sortedData_None: "sortedData s2n st dataRef None = (st, Inr dataRef)"
  by (simp add: sortedData_def)

lemma sortedData_Some:
  "sortedData s2n st dataRef (Some c) =
     (case sort_list (comparefn s2n c) (st ! dataRef) of
        Inl e \<Rightarrow> (st @ [st ! dataRef], Inl e)
      | Inr ys \<Rightarrow> (st @ [ys], Inr (length st)))"
  by (simp add: sortedData_def spread_def Array_sort_def nth_append split: sum.splits)

section \<open>The sorted view\<close>

text \<open>
  C8. Computing the sorted view leaves the host's array as it was: after \<^verbatim>\<open>sortedData\<close> is
  computed, every array that existed before holds the same elements in the same order, the
  array \<open>data\<close> among them. Without a sort configuration the view is the array \<open>data\<close> itself
  and the store is unchanged; with one, the view is a freshly allocated array, which holds the
  sorted rows.
\<close>

theorem sortedData_preserves_input:
  assumes "sortedData s2n st dataRef cfg = (st', result)" and "dataRef < length st"
  shows "st' ! dataRef = st ! dataRef
       \<and> (\<forall>a < length st. st' ! a = st ! a)
       \<and> (cfg = None \<longrightarrow> st' = st \<and> result = Inr dataRef)
       \<and> (\<forall>ref. cfg \<noteq> None \<and> result = Inr ref \<longrightarrow> ref = length st \<and> ref \<noteq> dataRef)
       \<and> (\<forall>ref. result = Inr ref \<longrightarrow> sortedRows s2n (st ! dataRef) cfg = Inr (st' ! ref))"
proof (cases cfg)
  case None
  with assms show ?thesis by (auto simp: sortedData_None sortedRows_None)
next
  case (Some c)
  with assms show ?thesis
    by (auto simp: sortedData_Some sortedRows_Some nth_append split: sum.splits)
qed

theorem sortedData_preserves_input_witness:
  "(\<forall>s2n. sortedData s2n [userData] 0 (Some \<lparr>key = utf16 ''name'', direction = asc\<rparr>)
      = ([userData,
          [user 4 ''Alice Brown'' ''alice@example.com'' ''User'' ''Active'',
           user 3 ''Bob Johnson'' ''bob@example.com'' ''Editor'' ''Inactive'',
           user 5 ''Charlie Wilson'' ''charlie@example.com'' ''Admin'' ''Active'',
           user 2 ''Jane Smith'' ''jane@example.com'' ''User'' ''Active'',
           user 1 ''John Doe'' ''john@example.com'' ''Admin'' ''Active'']], Inr 1))
   \<and> (0::nat) < length [userData]
   \<and> [userData,
          [user 4 ''Alice Brown'' ''alice@example.com'' ''User'' ''Active'',
           user 3 ''Bob Johnson'' ''bob@example.com'' ''Editor'' ''Inactive'',
           user 5 ''Charlie Wilson'' ''charlie@example.com'' ''Admin'' ''Active'',
           user 2 ''Jane Smith'' ''jane@example.com'' ''User'' ''Active'',
           user 1 ''John Doe'' ''john@example.com'' ''Admin'' ''Active'']] ! 0 = [userData] ! 0"
proof -
  let ?sorted = "[user 4 ''Alice Brown'' ''alice@example.com'' ''User'' ''Active'',
           user 3 ''Bob Johnson'' ''bob@example.com'' ''Editor'' ''Inactive'',
           user 5 ''Charlie Wilson'' ''charlie@example.com'' ''Admin'' ''Active'',
           user 2 ''Jane Smith'' ''jane@example.com'' ''User'' ''Active'',
           user 1 ''John Doe'' ''john@example.com'' ''Admin'' ''Active'']"
  have run: "sortedData s2n [userData] 0 (Some \<lparr>key = utf16 ''name'', direction = asc\<rparr>)
      = ([userData, ?sorted], Inr 1)" for s2n
    by (simp add: sortedData_Some sort_names)
  have len: "(0::nat) < length [userData]" by simp
  from sortedData_preserves_input [OF run len] have "[userData, ?sorted] ! 0 = [userData] ! 0"
    by blast
  with run len show ?thesis by blast
qed




section \<open>Failure modes\<close>




section \<open>State between renders\<close>




end
